theory Spec2Isabelle
  imports Complex_Main
begin

section \<open>Python values, dictionaries and strings\<close>

text \<open>
  The script \<^verbatim>\<open>ssh_generate.py\<close> works on values decoded from JSON and on flat
  dictionaries. A decoded value is one of Python's \<^verbatim>\<open>None\<close>, \<^verbatim>\<open>bool\<close>, \<^verbatim>\<open>int\<close>,
  \<^verbatim>\<open>float\<close>, \<^verbatim>\<open>str\<close>, \<^verbatim>\<open>list\<close> and \<^verbatim>\<open>dict\<close> (with string keys). A dictionary is an
  association list in insertion order; strings are character lists, and the case
  mappings below are those of the ASCII letters.
\<close>

datatype pyval =
    PNone
  | PBool bool
  | PInt int
  | PFloat real
  | PStr string
  | PList "pyval list"
  | PDict "(string \<times> pyval) list"

type_synonym 'v dict = "(string \<times> 'v) list"

text \<open>\<^verbatim>\<open>d[k] = v\<close>: an existing key keeps its position, a new key goes last.\<close>

fun dict_set :: "'v dict \<Rightarrow> string \<Rightarrow> 'v \<Rightarrow> 'v dict" where
  "dict_set [] k v = [(k, v)]"
| "dict_set ((k', v') # d) k v =
     (if k' = k then (k, v) # d else (k', v') # dict_set d k v)"

text \<open>\<^verbatim>\<open>{**a, **b}\<close>: the entries of \<open>a\<close>, then those of \<open>b\<close> stored one by one.\<close>

definition dict_merge :: "'v dict \<Rightarrow> 'v dict \<Rightarrow> 'v dict" where
  "dict_merge a b = foldl (\<lambda>d (k, v). dict_set d k v) a b"

text \<open>\<^verbatim>\<open>x or {}\<close> for an optional dictionary argument.\<close>

definition or_empty :: "'v dict option \<Rightarrow> 'v dict" where
  "or_empty d = (case d of None \<Rightarrow> [] | Some x \<Rightarrow> x)"

definition upper_letters :: string where
  "upper_letters = ''ABCDEFGHIJKLMNOPQRSTUVWXYZ''"

definition lower_letters :: string where
  "lower_letters = ''abcdefghijklmnopqrstuvwxyz''"

definition lower_char :: "char \<Rightarrow> char" where
  "lower_char c = (case map_of (zip upper_letters lower_letters) c of
                     Some l \<Rightarrow> l | None \<Rightarrow> c)"

definition upper_char :: "char \<Rightarrow> char" where
  "upper_char c = (case map_of (zip lower_letters upper_letters) c of
                     Some u \<Rightarrow> u | None \<Rightarrow> c)"

text \<open>\<^verbatim>\<open>str.casefold\<close> and \<^verbatim>\<open>str.upper\<close>.\<close>

definition casefold :: "string \<Rightarrow> string" where
  "casefold s = map lower_char s"

definition upper :: "string \<Rightarrow> string" where
  "upper s = map upper_char s"

text \<open>\<^verbatim>\<open>s.startswith(p)\<close>.\<close>

definition startswith :: "string \<Rightarrow> string \<Rightarrow> bool" where
  "startswith s p = (take (length p) s = p)"

section \<open>The HTTP client wrapper\<close>

text \<open>\<^verbatim>\<open>class Response(typing.NamedTuple)\<close>; the headers are a list of name/value pairs.\<close>

record Response =
  body :: string
  headers :: "(string \<times> string) list"
  status :: int
  error_count :: int

text \<open>
  Errors as values. The first five are Python's own; the others are the
  \<^verbatim>\<open>Exception(...)\<close> objects the script raises, one constructor per message, carrying
  what the message is formatted from.
\<close>

datatype pyerr =
    URLError string
  | TypeError
  | KeyError pyval
  | IndexError
  | AttributeError
  | InvalidVcs string
  | ErrorRetrievingProjects Response string
  | NoProjectsFound
  | ProjectNotFound string
  | ErrorGettingSshKeys Response string
  | ErrorCreatingKey Response string

text \<open>The arguments of \<^verbatim>\<open>urllib.request.Request(url, data=, headers=, method=)\<close>.\<close>

record http_request =
  req_url :: string
  req_data :: "string option"
  req_headers :: "string dict"
  req_method :: string

text \<open>
  What the \<^verbatim>\<open>try\<close> block of \<^verbatim>\<open>request\<close> (opening the URL, reading and decoding the
  body) can end in: it completes with headers, status and decoded body; it raises
  \<^verbatim>\<open>urllib.error.HTTPError\<close> with a reason, headers and a code; or it raises anything
  else, which no handler of the script catches.
\<close>

datatype outcome =
    Completed "(string \<times> string) list" int string
  | HTTPError string "(string \<times> string) list" int
  | Failed pyerr

text \<open>
  The library and the network are parameters of the model: the server answers a request
  knowing the requests sent before it; \<open>loads\<close> is \<^verbatim>\<open>json.loads\<close>, with \<open>None\<close> for
  \<^verbatim>\<open>json.JSONDecodeError\<close> (the text is not a JSON document); \<open>dumps\<close> is
  \<^verbatim>\<open>json.dumps\<close>; \<open>urlencode doseq safe\<close> is \<^verbatim>\<open>urllib.parse.urlencode\<close>; \<open>py_str\<close> is
  \<^verbatim>\<open>str\<close> on a decoded value.
\<close>

record env =
  net :: "http_request list \<Rightarrow> http_request \<Rightarrow> outcome"
  loads :: "string \<Rightarrow> pyval option"
  dumps :: "pyval \<Rightarrow> string"
  urlencode :: "bool \<Rightarrow> string \<Rightarrow> pyval dict \<Rightarrow> string"
  py_str :: "pyval \<Rightarrow> string"

text \<open>
  What the script does to the outside: the requests it has sent, the texts it has
  appended to files (file name, text) and the lines it has printed, each in order.
  Appending to a file and printing always succeed.
\<close>

record world =
  sent :: "http_request list"
  files :: "(string \<times> string) list"
  stdout :: "string list"

text \<open>\<^verbatim>\<open>Response.json\<close>.\<close>

definition json :: "env \<Rightarrow> Response \<Rightarrow> pyval" where
  "json e r = (case loads e (body r) of Some output \<Rightarrow> output | None \<Rightarrow> PStr [])"

text \<open>
  Lines 46 to 69 of \<^verbatim>\<open>request\<close>: the request object built from the arguments.
  \<^verbatim>\<open>str.encode\<close> is the identity on the model's strings.
\<close>

definition build_request ::
  "env \<Rightarrow> string \<Rightarrow> pyval dict option \<Rightarrow> pyval dict option \<Rightarrow> string dict option \<Rightarrow>
   string \<Rightarrow> bool \<Rightarrow> http_request" where
  "build_request e url data params hdrs method data_as_json =
     (let method = upper method;
          hdrs = or_empty hdrs;
          data = or_empty data;
          params = or_empty params;
          hdrs = dict_merge [(''Accept'', ''application/json'')] hdrs;
          params = (if method = ''GET'' then dict_merge params data else params);
          data = (if method = ''GET'' then None else Some data);
          url = (if params \<noteq> [] then url @ ''?'' @ urlencode e True ''/'' params else url);
          truthy_data = (case data of None \<Rightarrow> False | Some d \<Rightarrow> d \<noteq> []);
          request_data =
            (if truthy_data
             then (if data_as_json then Some (dumps e (PDict (or_empty data)))
                   else Some (urlencode e False [] (or_empty data)))
             else None);
          hdrs = (if truthy_data \<and> data_as_json
                  then dict_set hdrs ''Content-Type'' ''application/json; charset=UTF-8''
                  else hdrs)
      in \<lparr>req_url = url, req_data = request_data, req_headers = hdrs, req_method = method\<rparr>)"

text \<open>
  \<^verbatim>\<open>request\<close>: the guard on the URL, the request object, then the \<^verbatim>\<open>try\<close> block, whose
  outcome the server of the environment decides.
\<close>

definition request ::
  "env \<Rightarrow> string \<Rightarrow> pyval dict option \<Rightarrow> pyval dict option \<Rightarrow> string dict option \<Rightarrow>
   string \<Rightarrow> bool \<Rightarrow> int \<Rightarrow> world \<Rightarrow> (pyerr + Response) \<times> world" where
  "request e url data params hdrs method data_as_json ec w =
     (if \<not> startswith (casefold url) ''http''
      then (Inl (URLError ''Incorrect and possibly insecure protocol in url''), w)
      else
        let httprequest = build_request e url data params hdrs method data_as_json;
            w' = w\<lparr>sent := sent w @ [httprequest]\<rparr>
        in case net e (sent w) httprequest of
             Completed hs st b \<Rightarrow>
               (Inr \<lparr>body = b, headers = hs, status = st, error_count = 0\<rparr>, w')
           | HTTPError reason hs code \<Rightarrow>
               (Inr \<lparr>body = reason, headers = hs, status = code, error_count = ec + 1\<rparr>, w')
           | Failed err \<Rightarrow> (Inl err, w'))"

section \<open>Operations on decoded values\<close>

text \<open>Truth value of a decoded value, as \<^verbatim>\<open>if\<close> and \<^verbatim>\<open>and\<close> take it.\<close>

fun truthy :: "pyval \<Rightarrow> bool" where
  "truthy PNone = False"
| "truthy (PBool b) = b"
| "truthy (PInt i) = (i \<noteq> 0)"
| "truthy (PFloat x) = (x \<noteq> 0)"
| "truthy (PStr s) = (s \<noteq> [])"
| "truthy (PList xs) = (xs \<noteq> [])"
| "truthy (PDict d) = (d \<noteq> [])"

text \<open>
  \<^verbatim>\<open>v[k]\<close> for a string \<open>k\<close>: a dictionary looks the key up and raises \<^verbatim>\<open>KeyError\<close> when
  it is missing; every other value raises \<^verbatim>\<open>TypeError\<close>.
\<close>

fun subscript :: "pyval \<Rightarrow> string \<Rightarrow> pyerr + pyval" where
  "subscript (PDict d) k = (case map_of d k of None \<Rightarrow> Inl (KeyError (PStr k)) | Some v \<Rightarrow> Inr v)"
| "subscript _ k = Inl TypeError"

text \<open>\<^verbatim>\<open>v[0]\<close>, used on a value whose length is not zero.\<close>

fun getitem0 :: "pyval \<Rightarrow> pyerr + pyval" where
  "getitem0 (PList xs) = (case xs of [] \<Rightarrow> Inl IndexError | x # _ \<Rightarrow> Inr x)"
| "getitem0 (PStr s) = (case s of [] \<Rightarrow> Inl IndexError | c # _ \<Rightarrow> Inr (PStr [c]))"
| "getitem0 (PDict d) = Inl (KeyError (PInt 0))"
| "getitem0 _ = Inl TypeError"

text \<open>\<^verbatim>\<open>len(v)\<close>.\<close>

fun py_len :: "pyval \<Rightarrow> pyerr + nat" where
  "py_len (PList xs) = Inr (length xs)"
| "py_len (PStr s) = Inr (length s)"
| "py_len (PDict d) = Inr (length d)"
| "py_len _ = Inl TypeError"

text \<open>The items a \<^verbatim>\<open>for\<close> loop over \<open>v\<close> visits.\<close>

fun py_iter :: "pyval \<Rightarrow> pyerr + pyval list" where
  "py_iter (PList xs) = Inr xs"
| "py_iter (PStr s) = Inr (map (\<lambda>c. PStr [c]) s)"
| "py_iter (PDict d) = Inr (map (\<lambda>(k, v). PStr k) d)"
| "py_iter _ = Inl TypeError"

text \<open>\<open>p\<close> occurs in \<open>s\<close> as a substring.\<close>

fun substring :: "string \<Rightarrow> string \<Rightarrow> bool" where
  "substring p [] = (p = [])"
| "substring p (c # s) = (startswith (c # s) p \<or> substring p s)"

text \<open>\<^verbatim>\<open>k in v\<close> for a string \<open>k\<close>.\<close>

fun py_in :: "string \<Rightarrow> pyval \<Rightarrow> pyerr + bool" where
  "py_in k (PDict d) = Inr (k \<in> set (map fst d))"
| "py_in k (PList xs) = Inr (PStr k \<in> set xs)"
| "py_in k (PStr s) = Inr (substring k s)"
| "py_in k _ = Inl TypeError"

text \<open>\<^verbatim>\<open>s.split(sep)\<close> for a one-character separator: the pieces between the separators.\<close>

fun split :: "char \<Rightarrow> string \<Rightarrow> string list" where
  "split sep [] = [[]]"
| "split sep (c # s) =
     (if c = sep then [] # split sep s
      else (case split sep s of p # ps \<Rightarrow> (c # p) # ps | [] \<Rightarrow> [[c]]))"

section \<open>The key rotation workflow\<close>

definition convert_vcs :: "string \<Rightarrow> pyerr + string" where
  "convert_vcs vcs_input =
     (case map_of [(''gh'', ''github''), (''bb'', ''bitbucket''),
                   (''github'', ''github''), (''bitbucket'', ''bitbucket'')] vcs_input of
        Some v \<Rightarrow> Inr v
      | None \<Rightarrow> Inl (InvalidVcs vcs_input))"

definition print :: "string \<Rightarrow> world \<Rightarrow> world" where
  "print line w = w\<lparr>stdout := stdout w @ [line]\<rparr>"

text \<open>\<^verbatim>\<open>open(name, "a")\<close>, \<^verbatim>\<open>write(text)\<close>, \<^verbatim>\<open>close()\<close>.\<close>

definition append_file :: "string \<Rightarrow> string \<Rightarrow> world \<Rightarrow> world" where
  "append_file name text w = w\<lparr>files := files w @ [(name, text)]\<rparr>"

text \<open>
  One pass of the first loop of \<^verbatim>\<open>main\<close> (lines 130 to 138): the project's name is
  appended to \<open>project_names\<close> or not, or the pass raises.
\<close>

definition collect_project :: "string \<Rightarrow> pyval \<Rightarrow> string list \<Rightarrow> pyerr + string list" where
  "collect_project ORG project project_names =
     (case subscript project ''vcs_url'' of
        Inl err \<Rightarrow> Inl err
      | Inr vcs_url \<Rightarrow>
          (case vcs_url of
             PStr u \<Rightarrow>
               (let vcs_url_parts = split (CHR ''/'') u;
                    project_name = last vcs_url_parts
                in if length vcs_url_parts < 2 then Inl IndexError
                   else
                     let org_name = vcs_url_parts ! (length vcs_url_parts - 2)
                     in (case subscript project ''followers'' of
                           Inl err \<Rightarrow> Inl err
                         | Inr followers \<Rightarrow>
                             (case py_len followers of
                                Inl err \<Rightarrow> Inl err
                              | Inr n \<Rightarrow>
                                  if n > 0 \<and> org_name = ORG
                                  then Inr (project_names @ [project_name])
                                  else Inr project_names)))
           | _ \<Rightarrow> Inl AttributeError))"

text \<open>The first loop of \<^verbatim>\<open>main\<close>.\<close>

fun collect_projects :: "string \<Rightarrow> pyval list \<Rightarrow> string list \<Rightarrow> pyerr + string list" where
  "collect_projects ORG [] project_names = Inr project_names"
| "collect_projects ORG (project # projects) project_names =
     (case collect_project ORG project project_names of
        Inl err \<Rightarrow> Inl err
      | Inr project_names' \<Rightarrow> collect_projects ORG projects project_names')"

text \<open>Lines 140 to 145: the optional narrowing to one project.\<close>

definition narrow_projects :: "string \<Rightarrow> string list \<Rightarrow> pyerr + string list" where
  "narrow_projects PROJECT project_names =
     (if PROJECT \<noteq> []
      then (if PROJECT \<in> set project_names then Inr [PROJECT]
            else Inl (ProjectNotFound PROJECT))
      else Inr project_names)"

definition checkout_key_url :: "string \<Rightarrow> string \<Rightarrow> string \<Rightarrow> string" where
  "checkout_key_url VCS ORG project =
     ''https://circleci.com/api/v2/project/'' @ VCS @ ''/'' @ ORG @ ''/'' @ project @
     ''/checkout-key''"

text \<open>
  Lines 185 to 195: what the loop does with the response to the key-creation call.
  \<open>Inr ()\<close> is the end of this pass of the loop (by \<^verbatim>\<open>continue\<close> or by reaching the end
  of the body), \<open>Inl\<close> a raised error.
\<close>

definition after_create ::
  "env \<Rightarrow> string \<Rightarrow> string \<Rightarrow> string \<Rightarrow> Response \<Rightarrow> world \<Rightarrow> (pyerr + unit) \<times> world" where
  "after_create e ORG project url checkout_key_resp w =
     (if status checkout_key_resp = 403
      then (Inr (), print (''skipping project: '' @ project @
                           '' as unable to create new key. url: '' @ url) w)
      else if error_count checkout_key_resp > 0
      then (Inl (ErrorCreatingKey checkout_key_resp url), w)
      else (Inr (), append_file (''new_keys_'' @ ORG @ ''.txt'')
                      (project @ '' new prefered key: '' @
                       py_str e (json e checkout_key_resp) @ '' \<newline>'') w))"

text \<open>Lines 176 to 181: the body of the key-creation call.\<close>

definition payload :: "pyval \<Rightarrow> pyval dict" where
  "payload ssh_key_type =
     (if ssh_key_type = PStr ''github-user-key''
      then [(''type'', PStr ''user-key'')]
      else [(''type'', PStr ''deploy-key'')])"

text \<open>Lines 164 to 174: the messages and the entry in the log of old keys.\<close>

definition log_old_key :: "env \<Rightarrow> string \<Rightarrow> string \<Rightarrow> pyval \<Rightarrow> world \<Rightarrow> world" where
  "log_old_key e ORG project ssh_keys_resp w =
     print (''Creating key for '' @ project @ '' logging new key to new_keys_'' @ ORG @ ''.txt'')
       (append_file (''old_keys_'' @ ORG @ ''.txt'') (py_str e ssh_keys_resp @ ''\<newline>'')
          (print (project @ '' old preffered key: old_keys_'' @ ORG @ ''.txt'') w))"

text \<open>Lines 164 to 195: the branch taken for a preferred ssh-rsa key.\<close>

definition rotate_key ::
  "env \<Rightarrow> string \<Rightarrow> string \<Rightarrow> string dict \<Rightarrow> string \<Rightarrow> pyval \<Rightarrow> pyval \<Rightarrow> world \<Rightarrow>
   (pyerr + unit) \<times> world" where
  "rotate_key e ORG VCS hdrs project ssh_keys_resp key_info w =
     (let w1 = print (''ssh-rsa key found as prefered ssh key for '' @ project) w
      in case subscript key_info ''type'' of
           Inl err \<Rightarrow> (Inl err, w1)
         | Inr ssh_key_type \<Rightarrow>
             (let w2 = log_old_key e ORG project ssh_keys_resp w1;
                  url = checkout_key_url VCS ORG project
              in case request e url (Some (payload ssh_key_type)) None (Some hdrs)
                        ''POST'' True 0 w2 of
                   (Inl err, w3) \<Rightarrow> (Inl err, w3)
                 | (Inr checkout_key_resp, w3) \<Rightarrow>
                     after_create e ORG project url checkout_key_resp w3))"

text \<open>
  Line 163: \<^verbatim>\<open>key_info['preferred'] and key_info['public_key'].startswith('ssh-rsa')\<close>.
  The public key is not read when the flag is false.
\<close>

definition preferred_ssh_rsa :: "pyval \<Rightarrow> pyerr + bool" where
  "preferred_ssh_rsa key_info =
     (case subscript key_info ''preferred'' of
        Inl err \<Rightarrow> Inl err
      | Inr p \<Rightarrow>
          if truthy p
          then (case subscript key_info ''public_key'' of
                  Inl err \<Rightarrow> Inl err
                | Inr (PStr k) \<Rightarrow> Inr (startswith k ''ssh-rsa'')
                | Inr _ \<Rightarrow> Inl AttributeError)
          else Inr False)"

text \<open>Lines 156 to 197: the loop body from the decoded key listing on.\<close>

definition inspect_keys ::
  "env \<Rightarrow> string \<Rightarrow> string \<Rightarrow> string dict \<Rightarrow> string \<Rightarrow> pyval \<Rightarrow> world \<Rightarrow>
   (pyerr + unit) \<times> world" where
  "inspect_keys e ORG VCS hdrs project ssh_keys_resp w =
     (case subscript ssh_keys_resp ''items'' of
        Inl err \<Rightarrow> (Inl err, w)
      | Inr key_info \<Rightarrow>
          (case py_len key_info of
             Inl err \<Rightarrow> (Inl err, w)
           | Inr n \<Rightarrow>
               if n = 0 then (Inr (), w)
               else
                 (case getitem0 key_info of
                    Inl err \<Rightarrow> (Inl err, w)
                  | Inr key_info \<Rightarrow>
                      (case preferred_ssh_rsa key_info of
                         Inl err \<Rightarrow> (Inl err, w)
                       | Inr True \<Rightarrow> rotate_key e ORG VCS hdrs project ssh_keys_resp key_info w
                       | Inr False \<Rightarrow>
                           (Inr (), print (project @
                              '' prefered key is not ssh-rsa, no action taken.'') w)))))"

text \<open>Lines 148 to 197: one pass of the second loop of \<^verbatim>\<open>main\<close>.\<close>

definition process_project ::
  "env \<Rightarrow> string \<Rightarrow> string \<Rightarrow> string dict \<Rightarrow> string \<Rightarrow> world \<Rightarrow> (pyerr + unit) \<times> world" where
  "process_project e ORG VCS hdrs project w =
     (let ssh_keys_url = checkout_key_url VCS ORG project
      in case request e ssh_keys_url None None (Some hdrs) ''GET'' True 0 w of
           (Inl err, w1) \<Rightarrow> (Inl err, w1)
         | (Inr ssh_keys_resp, w1) \<Rightarrow>
             if error_count ssh_keys_resp > 0
             then (Inl (ErrorGettingSshKeys ssh_keys_resp ssh_keys_url), w1)
             else inspect_keys e ORG VCS hdrs project (json e ssh_keys_resp) w1)"

text \<open>The second loop of \<^verbatim>\<open>main\<close>: a raised error ends the run.\<close>

fun process_projects ::
  "env \<Rightarrow> string \<Rightarrow> string \<Rightarrow> string dict \<Rightarrow> string list \<Rightarrow> world \<Rightarrow> (pyerr + unit) \<times> world" where
  "process_projects e ORG VCS hdrs [] w = (Inr (), w)"
| "process_projects e ORG VCS hdrs (project # project_names) w =
     (case process_project e ORG VCS hdrs project w of
        (Inl err, w') \<Rightarrow> (Inl err, w')
      | (Inr u, w') \<Rightarrow> process_projects e ORG VCS hdrs project_names w')"

text \<open>
  \<^verbatim>\<open>main\<close>, with the four command-line arguments as parameters.
\<close>

definition main ::
  "env \<Rightarrow> string \<Rightarrow> string \<Rightarrow> string \<Rightarrow> string \<Rightarrow> world \<Rightarrow> (pyerr + unit) \<times> world" where
  "main e CIRCLE_API_TOKEN ORG vcs_arg PROJECT w =
     (case convert_vcs vcs_arg of
        Inl err \<Rightarrow> (Inl err, w)
      | Inr VCS \<Rightarrow>
          (let hdrs = [(''Circle-Token'', CIRCLE_API_TOKEN),
                       (''Content-type'', ''application/json'')];
               projects_url = ''https://circleci.com/api/v1.1/organization/'' @ VCS @ ''/'' @
                              ORG @ ''/settings''
           in case request e projects_url None None (Some hdrs) ''GET'' True 0 w of
                (Inl err, w1) \<Rightarrow> (Inl err, w1)
              | (Inr projects_resp, w1) \<Rightarrow>
                  if error_count projects_resp > 0
                  then (Inl (ErrorRetrievingProjects projects_resp projects_url), w1)
                  else
                    (let projects_json = json e projects_resp
                     in case py_in ''projects'' projects_json of
                          Inl err \<Rightarrow> (Inl err, w1)
                        | Inr False \<Rightarrow> (Inl NoProjectsFound, w1)
                        | Inr True \<Rightarrow>
                            (case subscript projects_json ''projects'' of
                               Inl err \<Rightarrow> (Inl err, w1)
                             | Inr projects \<Rightarrow>
                                 (case py_iter projects of
                                    Inl err \<Rightarrow> (Inl err, w1)
                                  | Inr ps \<Rightarrow>
                                      (case collect_projects ORG ps [] of
                                         Inl err \<Rightarrow> (Inl err, w1)
                                       | Inr project_names \<Rightarrow>
                                           (case narrow_projects PROJECT project_names of
                                              Inl err \<Rightarrow> (Inl err, w1)
                                            | Inr names \<Rightarrow>
                                                process_projects e ORG VCS hdrs names w1)))))))"

section \<open>What the specification calls an HTTP(S) scheme\<close>


section \<open>Well-formed responses of the provider\<close>

text \<open>
  A project of the listing response, as the wire protocol gives it: a dictionary whose
  \<^verbatim>\<open>vcs_url\<close> is a string of at least two segments and whose \<^verbatim>\<open>followers\<close> is a list.
\<close>

definition vcs_url_of :: "pyval \<Rightarrow> string" where
  "vcs_url_of project =
     (case project of
        PDict d \<Rightarrow> (case map_of d ''vcs_url'' of Some (PStr u) \<Rightarrow> u | _ \<Rightarrow> [])
      | _ \<Rightarrow> [])"

definition followers_of :: "pyval \<Rightarrow> pyval list" where
  "followers_of project =
     (case project of
        PDict d \<Rightarrow> (case map_of d ''followers'' of Some (PList fs) \<Rightarrow> fs | _ \<Rightarrow> [])
      | _ \<Rightarrow> [])"

definition wf_project :: "pyval \<Rightarrow> bool" where
  "wf_project project =
     (case project of
        PDict d \<Rightarrow>
          (case (map_of d ''vcs_url'', map_of d ''followers'') of
             (Some (PStr u), Some (PList fs)) \<Rightarrow> 2 \<le> length (split (CHR ''/'') u)
           | _ \<Rightarrow> False)
      | _ \<Rightarrow> False)"

text \<open>The segments of the URL between the slashes, its last and its second-to-last.\<close>

definition segments :: "pyval \<Rightarrow> string list" where
  "segments project = split (CHR ''/'') (vcs_url_of project)"

definition last_segment :: "pyval \<Rightarrow> string" where
  "last_segment project = last (segments project)"

definition second_to_last_segment :: "pyval \<Rightarrow> string" where
  "second_to_last_segment project = last (butlast (segments project))"

text \<open>
  Eligibility in the specification's words: at least one follower, and the
  second-to-last segment of the URL is the configured organization.
\<close>

definition eligible :: "string \<Rightarrow> pyval \<Rightarrow> bool" where
  "eligible ORG project =
     (followers_of project \<noteq> [] \<and> second_to_last_segment project = ORG)"

text \<open>
  A checkout key as the wire protocol gives it: a dictionary with a boolean
  \<^verbatim>\<open>preferred\<close>, a string \<^verbatim>\<open>public_key\<close> and a \<^verbatim>\<open>type\<close>.
\<close>

definition is_key :: "pyval \<Rightarrow> bool \<Rightarrow> string \<Rightarrow> pyval \<Rightarrow> bool" where
  "is_key key preferred public_key key_type =
     (case key of
        PDict d \<Rightarrow>
          map_of d ''preferred'' = Some (PBool preferred) \<and>
          map_of d ''public_key'' = Some (PStr public_key) \<and>
          map_of d ''type'' = Some key_type
      | _ \<Rightarrow> False)"


section \<open>An environment for running the model\<close>

text \<open>
  A server that answers by method and URL from a table and refuses every other request,
  a decoder that knows the documents of a table, and plain printers for the encoders.
\<close>

definition plain_text :: "pyval \<Rightarrow> string" where
  "plain_text v =
     (case v of
        PStr s \<Rightarrow> s
      | PDict ((k, PStr s) # _) \<Rightarrow> k @ ''='' @ s
      | _ \<Rightarrow> ''...'')"

fun plain_query :: "pyval dict \<Rightarrow> string" where
  "plain_query [] = []"
| "plain_query [(k, v)] = k @ ''='' @ plain_text v"
| "plain_query ((k, v) # d) = k @ ''='' @ plain_text v @ ''&'' @ plain_query d"

definition table_env :: "((string \<times> string) \<times> outcome) list \<Rightarrow> (string \<times> pyval) list \<Rightarrow> env" where
  "table_env routes docs =
     \<lparr>net = (\<lambda>hist r. case map_of routes (req_method r, req_url r) of
                        Some out \<Rightarrow> out
                      | None \<Rightarrow> Failed (URLError ''unreachable'')),
      loads = map_of docs,
      dumps = plain_text,
      urlencode = (\<lambda>doseq safe d. plain_query d),
      py_str = plain_text\<rparr>"

definition world0 :: world where
  "world0 = \<lparr>sent = [], files = [], stdout = []\<rparr>"

text \<open>Two routes of a server: a page that is missing and a page that is found.\<close>

definition routes_pages :: "((string \<times> string) \<times> outcome) list" where
  "routes_pages =
     [((''GET'', ''https://h/missing''), HTTPError ''Not Found'' [(''Server'', ''x'')] 404),
      ((''GET'', ''https://h/found''), Completed [(''Server'', ''x'')] 200 ''{}'')]"

text \<open>
  A listing of three projects, and the checkout keys, documents and routes of the
  project \<^verbatim>\<open>widgets\<close> of the organization \<^verbatim>\<open>acme\<close>.
\<close>

definition listing_acme :: "pyval list" where
  "listing_acme =
     [PDict [(''vcs_url'', PStr ''https://github.com/acme/gadgets''), (''followers'', PList [])],
      PDict [(''vcs_url'', PStr ''https://github.com/acme/widgets''),
             (''followers'', PList [PDict [(''login'', PStr ''ann'')]])],
      PDict [(''vcs_url'', PStr ''https://github.com/Acme/tools''),
             (''followers'', PList [PDict [(''login'', PStr ''bob'')]])]]"

definition acme_hdrs :: "string dict" where
  "acme_hdrs = [(''Circle-Token'', ''t0ken''), (''Content-type'', ''application/json'')]"

definition widgets_url :: string where
  "widgets_url = ''https://circleci.com/api/v2/project/github/acme/widgets/checkout-key''"

definition rsa_key :: pyval where
  "rsa_key = PDict [(''type'', PStr ''deploy-key''), (''preferred'', PBool True),
                    (''public_key'', PStr ''ssh-rsa AAAA'')]"

definition user_rsa_key :: pyval where
  "user_rsa_key = PDict [(''type'', PStr ''github-user-key''), (''preferred'', PBool True),
                         (''public_key'', PStr ''ssh-rsa BBBB'')]"

definition ed_key :: pyval where
  "ed_key = PDict [(''type'', PStr ''deploy-key''), (''preferred'', PBool True),
                   (''public_key'', PStr ''ssh-ed25519 AAAA'')]"

definition key_docs :: "(string \<times> pyval) list" where
  "key_docs =
     [(''rsa first'', PDict [(''items'', PList [rsa_key, ed_key])]),
      (''ed first'', PDict [(''items'', PList [ed_key, rsa_key])]),
      (''user rsa'', PDict [(''items'', PList [user_rsa_key])]),
      (''message'', PDict [(''message'', PStr ''Project not found'')]),
      (''created'', PDict [(''type'', PStr ''deploy-key'')])]"

definition key_routes :: "string \<Rightarrow> outcome \<Rightarrow> ((string \<times> string) \<times> outcome) list" where
  "key_routes listing created =
     [((''GET'', widgets_url), Completed [] 200 listing), ((''POST'', widgets_url), created)]"

definition widgets_get :: http_request where
  "widgets_get =
     \<lparr>req_url = widgets_url, req_data = None,
      req_headers = [(''Accept'', ''application/json''), (''Circle-Token'', ''t0ken''),
                     (''Content-type'', ''application/json'')],
      req_method = ''GET''\<rparr>"

definition widgets_post :: "string \<Rightarrow> http_request" where
  "widgets_post data =
     \<lparr>req_url = widgets_url, req_data = Some data,
      req_headers = [(''Accept'', ''application/json''), (''Circle-Token'', ''t0ken''),
                     (''Content-type'', ''application/json''),
                     (''Content-Type'', ''application/json; charset=UTF-8'')],
      req_method = ''POST''\<rparr>"

text \<open>The routes and documents of a whole run for the organization \<^verbatim>\<open>acme\<close>.\<close>

definition acme_routes :: "((string \<times> string) \<times> outcome) list" where
  "acme_routes =
     ((''GET'', ''https://circleci.com/api/v1.1/organization/github/acme/settings''),
      Completed [] 200 ''projects'') #
     key_routes ''rsa first'' (Completed [] 201 ''created'')"

definition acme_docs :: "(string \<times> pyval) list" where
  "acme_docs = (''projects'', PDict [(''projects'', PList listing_acme)]) # key_docs"

section \<open>Dictionaries and prefixes\<close>

lemma map_of_dict_set: "map_of (dict_set d k v) = (map_of d)(k \<mapsto> v)"
  by (induction d k v rule: dict_set.induct) auto

lemma map_of_foldl_dict_set:
  "map_of (foldl (\<lambda>d (k, v). dict_set d k v) a b) = map_of a ++ map_of (rev b)"
  by (induction b arbitrary: a) (auto simp: map_of_dict_set)

lemma map_of_dict_merge: "map_of (dict_merge a b) = map_of a ++ map_of (rev b)"
  by (simp add: dict_merge_def map_of_foldl_dict_set)

lemma dict_merge_lookup:
  assumes "distinct (map fst b)" and "(k, v) \<in> set b"
  shows "map_of (dict_merge a b) k = Some v"
proof -
  have "distinct (map fst (rev b))"
    using assms(1) by (metis distinct_rev rev_map)
  moreover have "(k, v) \<in> set (rev b)"
    using assms(2) by simp
  ultimately have "map_of (rev b) k = Some v"
    by (rule map_of_is_SomeI)
  then show ?thesis
    by (simp add: map_of_dict_merge)
qed



lemmas string_ops = startswith_def casefold_def upper_def lower_char_def upper_char_def
  upper_letters_def lower_letters_def

lemmas env_eval = table_env_def plain_text_def world0_def

section \<open>Properties of the HTTP client wrapper\<close>

lemma request_sent:
  "startswith (casefold url) ''http'' \<Longrightarrow>
   sent (snd (request e url data params hdrs meth daj ec w)) =
   sent w @ [build_request e url data params hdrs meth daj]"
  by (simp add: request_def Let_def split: outcome.split)

lemma build_request_get:
  assumes "upper meth = ''GET''"
  shows "build_request e url data params hdrs meth daj =
           \<lparr>req_url = (if dict_merge (or_empty params) (or_empty data) \<noteq> []
                       then url @ ''?'' @
                            urlencode e True ''/'' (dict_merge (or_empty params) (or_empty data))
                       else url),
            req_data = None,
            req_headers = dict_merge [(''Accept'', ''application/json'')] (or_empty hdrs),
            req_method = ''GET''\<rparr>"
  using assms by (simp add: build_request_def Let_def)





text \<open>
  Claim C6. When the HTTP call of \<^verbatim>\<open>request\<close> ends in an HTTP error, \<^verbatim>\<open>request\<close> does
  not raise: it returns a response whose body is the error's reason, whose headers and
  status are the error's, and whose error count is the caller's count plus one. When the
  call completes, the response returned has the error count 0.
\<close>

theorem request_http_error:
  "startswith (casefold url) ''http'' \<Longrightarrow>
   (net e (sent w) (build_request e url data params hdrs meth daj) = HTTPError reason hs code \<longrightarrow>
      fst (request e url data params hdrs meth daj ec w) =
        Inr \<lparr>body = reason, headers = hs, status = code, error_count = ec + 1\<rparr>) \<and>
   (net e (sent w) (build_request e url data params hdrs meth daj) = Completed hs st b \<longrightarrow>
      fst (request e url data params hdrs meth daj ec w) =
        Inr \<lparr>body = b, headers = hs, status = st, error_count = 0\<rparr>)"
  by (simp add: request_def Let_def)

theorem request_http_error_witness:
  "fst (request (table_env routes_pages []) ''https://h/missing'' None None None ''GET'' True 4
          world0) =
     Inr \<lparr>body = ''Not Found'', headers = [(''Server'', ''x'')], status = 404, error_count = 5\<rparr> \<and>
   fst (request (table_env routes_pages []) ''https://h/found'' None None None ''GET'' True 4
          world0) =
     Inr \<lparr>body = ''{}'', headers = [(''Server'', ''x'')], status = 200, error_count = 0\<rparr>"
  using request_http_error [where url = "''https://h/missing''" and e = "table_env routes_pages []"
          and w = world0 and data = None and params = None and hdrs = None and meth = "''GET''"
          and daj = True and reason = "''Not Found''" and hs = "[(''Server'', ''x'')]"
          and code = 404 and ec = 4]
        request_http_error [where url = "''https://h/found''" and e = "table_env routes_pages []"
          and w = world0 and data = None and params = None and hdrs = None and meth = "''GET''"
          and daj = True and hs = "[(''Server'', ''x'')]" and st = 200 and b = "''{}''" and ec = 4]
  by (simp add: string_ops build_request_def or_empty_def dict_merge_def env_eval routes_pages_def)



text \<open>
  Claim C10. For a \<^verbatim>\<open>GET\<close> request whose parameters and data both define a key, the
  merged dictionary that is URL-encoded into the query string gives the key the value of
  the data.
\<close>

theorem get_data_overrides_params:
  assumes "upper meth = ''GET''"
    and "distinct (map fst (or_empty data))"
    and "map_of (or_empty params) k = Some v"
    and "map_of (or_empty data) k = Some v'"
  shows "map_of (dict_merge (or_empty params) (or_empty data)) k = Some v' \<and>
         req_url (build_request e url data params hdrs meth daj) =
           url @ ''?'' @ urlencode e True ''/'' (dict_merge (or_empty params) (or_empty data))"
proof -
  have "(k, v') \<in> set (or_empty data)"
    using assms(4) by (rule map_of_SomeD)
  then have look: "map_of (dict_merge (or_empty params) (or_empty data)) k = Some v'"
    using assms(2) by (simp add: dict_merge_lookup)
  then have "dict_merge (or_empty params) (or_empty data) \<noteq> []"
    by auto
  then show ?thesis
    using look assms(1) by (simp add: build_request_get)
qed

theorem get_data_overrides_params_witness:
  "map_of (dict_merge [(''page'', PStr ''1''), (''sort'', PStr ''asc'')] [(''page'', PStr ''2'')])
     ''page'' = Some (PStr ''2'') \<and>
   req_url (build_request (table_env [] []) ''https://h/keys'' (Some [(''page'', PStr ''2'')])
              (Some [(''page'', PStr ''1''), (''sort'', PStr ''asc'')]) None ''GET'' True) =
     ''https://h/keys?page=2&sort=asc''"
  using get_data_overrides_params [where meth = "''GET''"
          and data = "Some [(''page'', PStr ''2'')]"
          and params = "Some [(''page'', PStr ''1''), (''sort'', PStr ''asc'')]"
          and k = "''page''" and v = "PStr ''1''" and v' = "PStr ''2''"
          and e = "table_env [] []" and url = "''https://h/keys''" and hdrs = None and daj = True]
  by (simp add: string_ops or_empty_def dict_merge_def env_eval)

section \<open>Properties of the key rotation workflow\<close>

lemma checkout_key_url_http: "startswith (casefold (checkout_key_url VCS ORG project)) ''http''"
  by (simp add: checkout_key_url_def string_ops)

lemma request_files: "files (snd (request e url data params hdrs meth daj ec w)) = files w"
  by (simp add: request_def Let_def split: outcome.split)

lemma sent_print [simp]: "sent (print line w) = sent w"
  by (simp add: print_def)

lemma files_print [simp]: "files (print line w) = files w"
  by (simp add: print_def)

lemma sent_append_file [simp]: "sent (append_file name text w) = sent w"
  by (simp add: append_file_def)

lemma sent_log_old_key [simp]: "sent (log_old_key e ORG project resp w) = sent w"
  by (simp add: log_old_key_def)

lemma sent_after_create [simp]: "sent (snd (after_create e ORG project url resp w)) = sent w"
  by (simp add: after_create_def)

lemma request_fst_sent_only:
  assumes "sent w = sent w'"
  shows "fst (request e url data params hdrs meth daj ec w) =
           fst (request e url data params hdrs meth daj ec w')"
  using assms by (simp add: request_def Let_def split: outcome.split)

lemma after_create_fst:
  "fst (after_create e ORG project url resp w) = fst (after_create e ORG project url resp w')"
  by (simp add: after_create_def)

lemma build_request_post_payload:
  "build_request e url (Some (payload key_type)) None (Some hdrs) ''POST'' True =
     \<lparr>req_url = url,
      req_data = Some (dumps e (PDict (payload key_type))),
      req_headers = dict_set (dict_merge [(''Accept'', ''application/json'')] hdrs)
                      ''Content-Type'' ''application/json; charset=UTF-8'',
      req_method = ''POST''\<rparr>"
  by (simp add: build_request_def payload_def or_empty_def string_ops)

lemma second_to_last_nth:
  assumes "2 \<le> length xs"
  shows "last (butlast xs) = xs ! (length xs - 2)"
proof -
  have "butlast xs \<noteq> []"
    using assms by (cases xs) (auto split: if_splits)
  then have "last (butlast xs) = butlast xs ! (length (butlast xs) - 1)"
    by (rule last_conv_nth)
  also have "\<dots> = xs ! (length xs - 2)"
    using assms by (simp add: nth_butlast numeral_2_eq_2)
  finally show ?thesis .
qed

lemma collect_project_wf:
  assumes "wf_project project"
  shows "collect_project ORG project project_names =
           Inr (if eligible ORG project then project_names @ [last_segment project]
                else project_names)"
proof -
  from assms obtain d u fs where p: "project = PDict d"
    and u: "map_of d ''vcs_url'' = Some (PStr u)"
    and fs: "map_of d ''followers'' = Some (PList fs)"
    and len: "2 \<le> length (split (CHR ''/'') u)"
    by (auto simp: wf_project_def split: pyval.splits option.splits)
  have org: "second_to_last_segment (PDict d) =
               split (CHR ''/'') u ! (length (split (CHR ''/'') u) - 2)"
    using len by (simp add: second_to_last_segment_def segments_def vcs_url_of_def u
        second_to_last_nth)
  show ?thesis
    using len
    by (simp add: collect_project_def p u fs Let_def eligible_def org followers_of_def
        last_segment_def segments_def vcs_url_of_def)
qed

lemma process_project_listed:
  assumes "request e (checkout_key_url VCS ORG project) None None (Some hdrs) ''GET'' True 0 w =
             (Inr r, w1)"
    and "error_count r = 0"
  shows "process_project e ORG VCS hdrs project w =
           inspect_keys e ORG VCS hdrs project (json e r) w1"
  using assms by (simp add: process_project_def)

lemma is_key_dict:
  assumes "is_key key preferred public_key key_type"
  obtains d where "key = PDict d"
    and "map_of d ''preferred'' = Some (PBool preferred)"
    and "map_of d ''public_key'' = Some (PStr public_key)"
    and "map_of d ''type'' = Some key_type"
  using assms by (auto simp: is_key_def split: pyval.splits)

lemma preferred_ssh_rsa_key:
  assumes "is_key key preferred public_key key_type"
  shows "preferred_ssh_rsa key = Inr (preferred \<and> startswith public_key ''ssh-rsa'')"
  using assms by (auto elim!: is_key_dict simp: preferred_ssh_rsa_def)

lemma inspect_first_key:
  assumes "subscript resp ''items'' = Inr (PList (key # keys))"
    and "is_key key preferred public_key key_type"
  shows "inspect_keys e ORG VCS hdrs project resp w =
           (if preferred \<and> startswith public_key ''ssh-rsa''
            then rotate_key e ORG VCS hdrs project resp key w
            else (Inr (), print (project @ '' prefered key is not ssh-rsa, no action taken.'') w))"
  using assms by (auto simp: inspect_keys_def preferred_ssh_rsa_key)

lemma rotate_key_typed:
  assumes "is_key key preferred public_key key_type"
  shows "rotate_key e ORG VCS hdrs project resp key w =
           (case request e (checkout_key_url VCS ORG project) (Some (payload key_type)) None
                   (Some hdrs) ''POST'' True 0
                   (log_old_key e ORG project resp
                      (print (''ssh-rsa key found as prefered ssh key for '' @ project) w)) of
              (Inl err, w3) \<Rightarrow> (Inl err, w3)
            | (Inr checkout_key_resp, w3) \<Rightarrow>
                after_create e ORG project (checkout_key_url VCS ORG project) checkout_key_resp w3)"
  using assms by (auto elim!: is_key_dict simp: rotate_key_def Let_def)

lemma rotate_key_sent:
  assumes "is_key key preferred public_key key_type"
  shows "sent (snd (rotate_key e ORG VCS hdrs project resp key w)) =
           sent w @ [build_request e (checkout_key_url VCS ORG project) (Some (payload key_type))
                       None (Some hdrs) ''POST'' True]"
proof -
  let ?w2 = "log_old_key e ORG project resp
               (print (''ssh-rsa key found as prefered ssh key for '' @ project) w)"
  let ?call = "request e (checkout_key_url VCS ORG project) (Some (payload key_type)) None
                 (Some hdrs) ''POST'' True 0 ?w2"
  have "sent (snd ?call) = sent ?w2 @ [build_request e (checkout_key_url VCS ORG project)
          (Some (payload key_type)) None (Some hdrs) ''POST'' True]"
    by (rule request_sent) (rule checkout_key_url_http)
  then show ?thesis
    by (cases ?call) (auto simp: rotate_key_typed [OF assms] split: sum.splits)
qed

lemma rotate_key_fst:
  assumes "is_key key preferred public_key key_type"
  shows "fst (rotate_key e ORG VCS hdrs project resp key w) =
           fst (rotate_key e ORG VCS hdrs project resp' key w)"
proof -
  let ?w2 = "\<lambda>resp. log_old_key e ORG project resp
               (print (''ssh-rsa key found as prefered ssh key for '' @ project) w)"
  let ?call = "\<lambda>resp. request e (checkout_key_url VCS ORG project) (Some (payload key_type)) None
                 (Some hdrs) ''POST'' True 0 (?w2 resp)"
  have same: "fst (?call resp) = fst (?call resp')"
    by (rule request_fst_sent_only) simp
  obtain a w3 where c: "?call resp = (a, w3)"
    by (cases "?call resp")
  obtain a' w3' where c': "?call resp' = (a', w3')"
    by (cases "?call resp'")
  from same c c' have "a' = a"
    by simp
  then  show ?thesis
    unfolding rotate_key_typed [OF assms] c c' \<open>a' = a\<close>
    by (cases a)
      (simp_all add: after_create_fst [of e ORG project "checkout_key_url VCS ORG project" _ w3 w3'])
qed


lemmas run_eval = string_ops env_eval build_request_def or_empty_def dict_merge_def
  request_def checkout_key_url_def widgets_url_def acme_hdrs_def key_routes_def key_docs_def
  widgets_get_def widgets_post_def json_def

lemmas loop_eval = process_project_def inspect_keys_def preferred_ssh_rsa_def rotate_key_def
  after_create_def log_old_key_def print_def append_file_def payload_def

lemma listing_run:
  "request (table_env (key_routes listing created) key_docs)
     (checkout_key_url ''github'' ''acme'' ''widgets'') None None (Some acme_hdrs) ''GET'' True 0
     world0 =
   (Inr \<lparr>body = listing, headers = [], status = 200, error_count = 0\<rparr>,
    \<lparr>sent = [widgets_get], files = [], stdout = []\<rparr>)"
  by (simp add: run_eval)

text \<open>
  A complete run: one project of \<^verbatim>\<open>acme\<close> is followed and has a preferred ssh-rsa
  deploy key. The run lists the projects, lists the keys of \<^verbatim>\<open>widgets\<close>, logs the old
  keys, posts the creation of a deploy key and logs the new key.
\<close>

lemma main_end_to_end:
  "main (table_env acme_routes acme_docs) ''t0ken'' ''acme'' ''gh'' [] world0 =
     (Inr (),
      \<lparr>sent = [\<lparr>req_url = ''https://circleci.com/api/v1.1/organization/github/acme/settings'',
                  req_data = None,
                  req_headers = [(''Accept'', ''application/json''), (''Circle-Token'', ''t0ken''),
                                 (''Content-type'', ''application/json'')],
                  req_method = ''GET''\<rparr>,
               widgets_get, widgets_post ''type=deploy-key''],
       files = [(''old_keys_acme.txt'', ''...\<newline>''),
                (''new_keys_acme.txt'', ''widgets new prefered key: type=deploy-key \<newline>'')],
       stdout = [''ssh-rsa key found as prefered ssh key for widgets'',
                 ''widgets old preffered key: old_keys_acme.txt'',
                 ''Creating key for widgets logging new key to new_keys_acme.txt'']\<rparr>)"
  by (simp add: main_def convert_vcs_def acme_routes_def acme_docs_def run_eval loop_eval
      listing_acme_def collect_project_def narrow_projects_def rsa_key_def ed_key_def
      user_rsa_key_def Let_def)

text \<open>
  Claim C5. For a listing response whose projects are well formed, the first loop of
  \<^verbatim>\<open>main\<close> appends to the project names, in order, the name of exactly those projects
  whose followers list is not empty and whose second-to-last segment of \<^verbatim>\<open>vcs_url\<close> is
  equal, character by character, to the configured organization.
\<close>

theorem eligible_projects:
  assumes "\<forall>project \<in> set projects. wf_project project"
  shows "collect_projects ORG projects project_names =
           Inr (project_names @ map last_segment (filter (eligible ORG) projects))"
  using assms
proof (induction projects arbitrary: project_names)
  case Nil
  show ?case by simp
next
  case (Cons project projects)
  then show ?case
    by (simp add: collect_project_wf)
qed

theorem eligible_projects_witness:
  "collect_projects ''acme'' listing_acme [] = Inr [''widgets'']"
  using eligible_projects [of listing_acme "''acme''" "[]"]
  by (simp add: listing_acme_def wf_project_def eligible_def followers_of_def
      second_to_last_segment_def last_segment_def segments_def vcs_url_of_def)

text \<open>
  Claim C1. For a project whose key listing succeeds with a key list that is not empty
  and whose first key is well formed: after the listing request, one further request is
  sent, the key-creation \<^verbatim>\<open>POST\<close>, when the first key is preferred and its public key
  starts with \<^verbatim>\<open>ssh-rsa\<close>, and none otherwise; in the second case the pass ends without an
  error and no file is written. The keys after the first do not matter: the result and
  the requests are those of the listing that holds the first key alone.
\<close>

theorem rotation_decided_by_first_key:
  assumes "request e (checkout_key_url VCS ORG project) None None (Some hdrs) ''GET'' True 0 w =
             (Inr r, w1)"
    and "error_count r = 0"
    and "subscript (json e r) ''items'' = Inr (PList (key # keys))"
    and "is_key key preferred public_key key_type"
  shows "sent (snd (process_project e ORG VCS hdrs project w)) =
           (if preferred \<and> startswith public_key ''ssh-rsa''
            then sent w1 @ [build_request e (checkout_key_url VCS ORG project)
                              (Some (payload key_type)) None (Some hdrs) ''POST'' True]
            else sent w1) \<and>
         req_method (build_request e (checkout_key_url VCS ORG project)
                       (Some (payload key_type)) None (Some hdrs) ''POST'' True) = ''POST'' \<and>
         (\<not> (preferred \<and> startswith public_key ''ssh-rsa'') \<longrightarrow>
            fst (process_project e ORG VCS hdrs project w) = Inr () \<and>
            files (snd (process_project e ORG VCS hdrs project w)) = files w) \<and>
         fst (process_project e ORG VCS hdrs project w) =
           fst (inspect_keys e ORG VCS hdrs project (PDict [(''items'', PList [key])]) w1) \<and>
         sent (snd (process_project e ORG VCS hdrs project w)) =
           sent (snd (inspect_keys e ORG VCS hdrs project (PDict [(''items'', PList [key])]) w1))"
proof -
  let ?cond = "preferred \<and> startswith public_key ''ssh-rsa''"
  let ?one = "PDict [(''items'', PList [key])]"
  have run: "process_project e ORG VCS hdrs project w =
               (if ?cond then rotate_key e ORG VCS hdrs project (json e r) key w1
                else (Inr (), print (project @ '' prefered key is not ssh-rsa, no action taken.'') w1))"
    using assms by (simp add: process_project_listed inspect_first_key)
  have "subscript ?one ''items'' = Inr (PList [key])"
    by simp
  then have alone: "inspect_keys e ORG VCS hdrs project ?one w1 =
               (if ?cond then rotate_key e ORG VCS hdrs project ?one key w1
                else (Inr (), print (project @ '' prefered key is not ssh-rsa, no action taken.'') w1))"
    using assms(4) by (rule inspect_first_key)
  have "files w1 = files (snd (request e (checkout_key_url VCS ORG project) None None (Some hdrs)
                                 ''GET'' True 0 w))"
    by (simp add: assms(1))
  then have files: "files w1 = files w"
    by (simp only: request_files)
  have "sent (snd (process_project e ORG VCS hdrs project w)) =
           (if ?cond
            then sent w1 @ [build_request e (checkout_key_url VCS ORG project)
                              (Some (payload key_type)) None (Some hdrs) ''POST'' True]
            else sent w1)"
    by (simp add: run rotate_key_sent [OF assms(4)])
  moreover have "req_method (build_request e (checkout_key_url VCS ORG project)
                       (Some (payload key_type)) None (Some hdrs) ''POST'' True) = ''POST''"
    by (simp add: build_request_post_payload)
  moreover have "\<not> ?cond \<longrightarrow>
            fst (process_project e ORG VCS hdrs project w) = Inr () \<and>
            files (snd (process_project e ORG VCS hdrs project w)) = files w"
    by (simp add: run files)
  moreover have "fst (process_project e ORG VCS hdrs project w) =
           fst (inspect_keys e ORG VCS hdrs project ?one w1)"
    using rotate_key_fst [OF assms(4), of e ORG VCS hdrs project "json e r" w1 ?one]
    by (simp add: run alone)
  moreover have "sent (snd (process_project e ORG VCS hdrs project w)) =
           sent (snd (inspect_keys e ORG VCS hdrs project ?one w1))"
    by (simp add: run alone rotate_key_sent [OF assms(4)])
  ultimately show ?thesis
    by blast
qed

theorem rotation_decided_by_first_key_witness:
  "sent (snd (process_project (table_env (key_routes ''rsa first'' (Completed [] 201 ''created''))
                                 key_docs)
                ''acme'' ''github'' acme_hdrs ''widgets'' world0)) =
     [widgets_get, widgets_post ''type=deploy-key''] \<and>
   process_project (table_env (key_routes ''ed first'' (Completed [] 201 ''created'')) key_docs)
     ''acme'' ''github'' acme_hdrs ''widgets'' world0 =
     (Inr (), \<lparr>sent = [widgets_get], files = [],
               stdout = [''widgets prefered key is not ssh-rsa, no action taken.'']\<rparr>)"
proof -
  let ?rsa = "table_env (key_routes ''rsa first'' (Completed [] 201 ''created'')) key_docs"
  let ?ed = "table_env (key_routes ''ed first'' (Completed [] 201 ''created'')) key_docs"
  let ?r = "\<lambda>listing. \<lparr>body = listing, headers = [], status = 200, error_count = 0\<rparr>"
  have zero: "error_count (?r listing) = 0" for listing
    by simp
  have rsa_items: "subscript (json ?rsa (?r ''rsa first'')) ''items'' =
                     Inr (PList (rsa_key # [ed_key]))"
    by (simp add: run_eval)
  have ed_items: "subscript (json ?ed (?r ''ed first'')) ''items'' =
                    Inr (PList (ed_key # [rsa_key]))"
    by (simp add: run_eval)
  have rsa: "is_key rsa_key True ''ssh-rsa AAAA'' (PStr ''deploy-key'')"
    by (simp add: is_key_def rsa_key_def)
  have ed: "is_key ed_key True ''ssh-ed25519 AAAA'' (PStr ''deploy-key'')"
    by (simp add: is_key_def ed_key_def)
  note first = rotation_decided_by_first_key [OF listing_run zero rsa_items rsa]
  note second = rotation_decided_by_first_key [OF listing_run zero ed_items ed]
  have "sent (snd (process_project ?rsa ''acme'' ''github'' acme_hdrs ''widgets'' world0)) =
          [widgets_get, widgets_post ''type=deploy-key'']"
    using first by (simp add: run_eval payload_def)
  moreover have "process_project ?ed ''acme'' ''github'' acme_hdrs ''widgets'' world0 =
     (Inr (), \<lparr>sent = [widgets_get], files = [],
               stdout = [''widgets prefered key is not ssh-rsa, no action taken.'']\<rparr>)"
    using second
    by (simp add: run_eval prod_eq_iff process_project_def inspect_keys_def preferred_ssh_rsa_def
        ed_key_def rsa_key_def print_def)
  ultimately show ?thesis
    by simp
qed

text \<open>
  Claim C3. When the key-creation \<^verbatim>\<open>POST\<close> for a project returns a response with status
  403, the loop goes on with the remaining projects and the run ends as they end; when
  the response has another status and an error count above zero, the run ends there with
  the error of a failed key creation.
\<close>

theorem create_403_skips_other_error_aborts:
  assumes "request e (checkout_key_url VCS ORG project) None None (Some hdrs) ''GET'' True 0 w =
             (Inr r, w1)"
    and "error_count r = 0"
    and "subscript (json e r) ''items'' = Inr (PList (key # keys))"
    and "is_key key True public_key key_type"
    and "startswith public_key ''ssh-rsa''"
    and "request e (checkout_key_url VCS ORG project) (Some (payload key_type)) None (Some hdrs)
           ''POST'' True 0
           (log_old_key e ORG project (json e r)
              (print (''ssh-rsa key found as prefered ssh key for '' @ project) w1)) =
             (Inr checkout_key_resp, w3)"
  shows "(status checkout_key_resp = 403 \<longrightarrow>
            process_projects e ORG VCS hdrs (project # project_names) w =
              process_projects e ORG VCS hdrs project_names
                (print (''skipping project: '' @ project @ '' as unable to create new key. url: '' @
                        checkout_key_url VCS ORG project) w3)) \<and>
         (status checkout_key_resp \<noteq> 403 \<and> error_count checkout_key_resp > 0 \<longrightarrow>
            process_projects e ORG VCS hdrs (project # project_names) w =
              (Inl (ErrorCreatingKey checkout_key_resp (checkout_key_url VCS ORG project)), w3))"
proof -
  have "process_project e ORG VCS hdrs project w =
          rotate_key e ORG VCS hdrs project (json e r) key w1"
    using assms(1-5) by (simp add: process_project_listed inspect_first_key)
  also have "\<dots> = after_create e ORG project (checkout_key_url VCS ORG project)
                     checkout_key_resp w3"
    unfolding rotate_key_typed [OF assms(4)] assms(6) by simp
  finally have "process_project e ORG VCS hdrs project w =
          after_create e ORG project (checkout_key_url VCS ORG project) checkout_key_resp w3" .
  then show ?thesis
    by (simp add: after_create_def)
qed

theorem create_403_skips_other_error_aborts_witness:
  "fst (process_projects (table_env (key_routes ''rsa first'' (HTTPError ''Forbidden'' [] 403))
                            key_docs)
          ''acme'' ''github'' acme_hdrs [''widgets''] world0) = Inr () \<and>
   fst (process_projects
          (table_env (key_routes ''rsa first'' (HTTPError ''Internal Server Error'' [] 500))
             key_docs)
          ''acme'' ''github'' acme_hdrs [''widgets'', ''gadgets''] world0) =
     Inl (ErrorCreatingKey
            \<lparr>body = ''Internal Server Error'', headers = [], status = 500, error_count = 1\<rparr>
            widgets_url)"
proof -
  let ?e = "\<lambda>created. table_env (key_routes ''rsa first'' created) key_docs"
  let ?r = "\<lparr>body = ''rsa first'', headers = [], status = 200, error_count = 0\<rparr>"
  let ?w1 = "\<lparr>sent = [widgets_get], files = [], stdout = []\<rparr>"
  let ?call = "\<lambda>created. request (?e created) (checkout_key_url ''github'' ''acme'' ''widgets'')
                 (Some (payload (PStr ''deploy-key''))) None (Some acme_hdrs) ''POST'' True 0
                 (log_old_key (?e created) ''acme'' ''widgets'' (json (?e created) ?r)
                    (print (''ssh-rsa key found as prefered ssh key for '' @ ''widgets'') ?w1))"
  have zero: "error_count ?r = 0"
    by simp
  have items: "subscript (json (?e created) ?r) ''items'' = Inr (PList (rsa_key # [ed_key]))"
    for created
    by (simp add: run_eval)
  have rsa: "is_key rsa_key True ''ssh-rsa AAAA'' (PStr ''deploy-key'')"
    by (simp add: is_key_def rsa_key_def)
  have prefix: "startswith ''ssh-rsa AAAA'' ''ssh-rsa''"
    by (simp add: startswith_def)
  have forbidden: "?call (HTTPError ''Forbidden'' [] 403) =
          (Inr \<lparr>body = ''Forbidden'', headers = [], status = 403, error_count = 1\<rparr>,
           snd (?call (HTTPError ''Forbidden'' [] 403)))"
    by (simp add: run_eval prod_eq_iff payload_def log_old_key_def print_def append_file_def)
  have broken: "?call (HTTPError ''Internal Server Error'' [] 500) =
          (Inr \<lparr>body = ''Internal Server Error'', headers = [], status = 500, error_count = 1\<rparr>,
           snd (?call (HTTPError ''Internal Server Error'' [] 500)))"
    by (simp add: run_eval prod_eq_iff payload_def log_old_key_def print_def append_file_def)
  note skip = create_403_skips_other_error_aborts
                [OF listing_run zero items rsa prefix forbidden, of "[]"]
  note abort = create_403_skips_other_error_aborts
                [OF listing_run zero items rsa prefix broken, of "[''gadgets'']"]
  have "fst (process_projects (?e (HTTPError ''Forbidden'' [] 403))
          ''acme'' ''github'' acme_hdrs [''widgets''] world0) = Inr ()"
    using skip by simp
  moreover have "fst (process_projects (?e (HTTPError ''Internal Server Error'' [] 500))
          ''acme'' ''github'' acme_hdrs [''widgets'', ''gadgets''] world0) =
     Inl (ErrorCreatingKey
            \<lparr>body = ''Internal Server Error'', headers = [], status = 500, error_count = 1\<rparr>
            widgets_url)"
    using abort by (simp add: checkout_key_url_def widgets_url_def)
  ultimately show ?thesis
    by simp
qed

text \<open>
  Claim C4. When a key is rotated, the key-creation \<^verbatim>\<open>POST\<close> carries the JSON encoding of
  a dictionary whose \<^verbatim>\<open>type\<close> is \<^verbatim>\<open>user-key\<close> if the type of the legacy key is
  \<^verbatim>\<open>github-user-key\<close>, and \<^verbatim>\<open>deploy-key\<close> for every other type.
\<close>

theorem replacement_key_type:
  assumes "request e (checkout_key_url VCS ORG project) None None (Some hdrs) ''GET'' True 0 w =
             (Inr r, w1)"
    and "error_count r = 0"
    and "subscript (json e r) ''items'' = Inr (PList (key # keys))"
    and "is_key key True public_key key_type"
    and "startswith public_key ''ssh-rsa''"
  shows "sent (snd (process_project e ORG VCS hdrs project w)) =
           sent w1 @
           [\<lparr>req_url = checkout_key_url VCS ORG project,
             req_data = Some (dumps e (PDict [(''type'',
                          PStr (if key_type = PStr ''github-user-key'' then ''user-key''
                                else ''deploy-key''))])),
             req_headers = dict_set (dict_merge [(''Accept'', ''application/json'')] hdrs)
                             ''Content-Type'' ''application/json; charset=UTF-8'',
             req_method = ''POST''\<rparr>]"
proof -
  have run: "process_project e ORG VCS hdrs project w =
          rotate_key e ORG VCS hdrs project (json e r) key w1"
    using assms by (simp add: process_project_listed inspect_first_key)
  have pl: "payload key_type =
           [(''type'', PStr (if key_type = PStr ''github-user-key'' then ''user-key''
                             else ''deploy-key''))]"
    by (simp add: payload_def)
  have "sent (snd (process_project e ORG VCS hdrs project w)) =
           sent w1 @ [build_request e (checkout_key_url VCS ORG project)
                        (Some (payload key_type)) None (Some hdrs) ''POST'' True]"
    by (simp add: run rotate_key_sent [OF assms(4)])
  also have "\<dots> = sent w1 @
           [\<lparr>req_url = checkout_key_url VCS ORG project,
             req_data = Some (dumps e (PDict (payload key_type))),
             req_headers = dict_set (dict_merge [(''Accept'', ''application/json'')] hdrs)
                             ''Content-Type'' ''application/json; charset=UTF-8'',
             req_method = ''POST''\<rparr>]"
    by (simp only: build_request_post_payload)
  finally show ?thesis
    by (simp only: pl)
qed

theorem replacement_key_type_witness:
  "sent (snd (process_project (table_env (key_routes ''user rsa'' (Completed [] 201 ''created''))
                                 key_docs)
                ''acme'' ''github'' acme_hdrs ''widgets'' world0)) =
     [widgets_get, widgets_post ''type=user-key''] \<and>
   sent (snd (process_project (table_env (key_routes ''rsa first'' (Completed [] 201 ''created''))
                                 key_docs)
                ''acme'' ''github'' acme_hdrs ''widgets'' world0)) =
     [widgets_get, widgets_post ''type=deploy-key'']"
proof -
  let ?e = "\<lambda>listing. table_env (key_routes listing (Completed [] 201 ''created'')) key_docs"
  let ?r = "\<lambda>listing. \<lparr>body = listing, headers = [], status = 200, error_count = 0\<rparr>"
  have zero: "error_count (?r listing) = 0" for listing
    by simp
  have user_items: "subscript (json (?e ''user rsa'') (?r ''user rsa'')) ''items'' =
                      Inr (PList (user_rsa_key # []))"
    by (simp add: run_eval)
  have rsa_items: "subscript (json (?e ''rsa first'') (?r ''rsa first'')) ''items'' =
                     Inr (PList (rsa_key # [ed_key]))"
    by (simp add: run_eval)
  have user: "is_key user_rsa_key True ''ssh-rsa BBBB'' (PStr ''github-user-key'')"
    by (simp add: is_key_def user_rsa_key_def)
  have rsa: "is_key rsa_key True ''ssh-rsa AAAA'' (PStr ''deploy-key'')"
    by (simp add: is_key_def rsa_key_def)
  have prefix: "startswith ''ssh-rsa BBBB'' ''ssh-rsa''" "startswith ''ssh-rsa AAAA'' ''ssh-rsa''"
    by (simp_all add: startswith_def)
  note a = replacement_key_type [OF listing_run zero user_items user prefix(1)]
  note b = replacement_key_type [OF listing_run zero rsa_items rsa prefix(2)]
  show ?thesis
    using a b by (simp add: run_eval)
qed



end
